theory Spec2Isabelle
  imports Main "HOL-Library.List_Lexorder"
begin

section \<open>The Python runtime that app.py runs on\<close>

text \<open>
  The application is three Flask view functions. Two of them open a data file, hand the
  file object to \<^verbatim>\<open>json.load\<close> and return what it decodes; the third renders a template.
  The embedding makes the runtime explicit: the file system, the table of open file
  objects, a log of the file operations performed, and exceptions as values.
\<close>

subsection \<open>Values and exceptions\<close>

text \<open>
  A Python str is a sequence of code points. File contents are the text that a read in
  text mode returns, so decoding bytes into text is outside the model.
\<close>

type_synonym pystr = "nat list"

definition ustr :: "string \<Rightarrow> pystr" where
  "ustr s = map of_char s"

text \<open>
  The objects a view function of app.py can return: what \<^verbatim>\<open>json.load\<close> decodes
  (None, bool, int, float, str, list, dict with its keys in insertion order) and the
  str that \<^verbatim>\<open>render_template\<close> produces. A float is kept as the numeral or
  constant it was read from; its rounding to a binary64 value is not modelled.
\<close>

datatype pyval =
    PyNone
  | PyBool bool
  | PyInt int
  | PyFloat pystr
  | PyStr pystr
  | PyList "pyval list"
  | PyDict "(pystr \<times> pyval) list"

datatype py_error =
    FileNotFoundError
  | PermissionError
  | OSError
  | ValueError
  | UnicodeDecodeError
  | JSONDecodeError
  | RecursionError
  | TypeError
  | TemplateNotFound

subsection \<open>Files, file objects and the operation log\<close>

text \<open>
  A path names no file, a file that cannot be opened for reading, or a file with its
  contents.
\<close>

datatype file_state = Absent | Denied | Content pystr

datatype io_event =
    Opened nat string
  | Open_failed string py_error
  | Read_all nat
  | Closed nat

record world =
  files :: "string \<Rightarrow> file_state"
  open_files :: "(nat \<times> string) list"
  io_log :: "io_event list"

text \<open>
  The libraries app.py calls but does not contain are parameters: \<open>loads\<close> is what
  \<^verbatim>\<open>json.load\<close> makes of the text of a file (a decoded value, or the exception it
  raises), \<open>dumps\<close> is the JSON encoder of the framework, \<open>error_page\<close> is the
  framework's page for an uncaught exception and \<open>not_found_page\<close> its page for an
  unknown URL. Every theorem below holds for all of them.
\<close>

record library =
  loads :: "pystr \<Rightarrow> py_error + pyval"
  dumps :: "pyval \<Rightarrow> pystr"
  error_page :: "py_error \<Rightarrow> pystr"
  not_found_page :: pystr

text \<open>A file object is identified by a number that no open file object has.\<close>

fun fresh_handle :: "(nat \<times> string) list \<Rightarrow> nat" where
  "fresh_handle [] = 0"
| "fresh_handle ((h, p) # hs) = max (Suc h) (fresh_handle hs)"

text \<open>\<^verbatim>\<open>open(name, 'r')\<close>: raises when the file is absent or unreadable.\<close>

definition py_open :: "string \<Rightarrow> world \<Rightarrow> (py_error + nat) \<times> world" where
  "py_open name w =
     (case files w name of
        Absent \<Rightarrow>
          (Inl FileNotFoundError,
           w\<lparr>io_log := io_log w @ [Open_failed name FileNotFoundError]\<rparr>)
      | Denied \<Rightarrow>
          (Inl PermissionError,
           w\<lparr>io_log := io_log w @ [Open_failed name PermissionError]\<rparr>)
      | Content c \<Rightarrow>
          (let f = fresh_handle (open_files w)
           in (Inr f,
               w\<lparr>open_files := (f, name) # open_files w,
                 io_log := io_log w @ [Opened f name]\<rparr>)))"

text \<open>\<^verbatim>\<open>fp.read()\<close>: the whole text of the file; ValueError on a closed file object.\<close>

definition file_read :: "nat \<Rightarrow> world \<Rightarrow> (py_error + pystr) \<times> world" where
  "file_read f w =
     (case map_of (open_files w) f of
        None \<Rightarrow> (Inl ValueError, w)
      | Some name \<Rightarrow>
          (case files w name of
             Content c \<Rightarrow> (Inr c, w\<lparr>io_log := io_log w @ [Read_all f]\<rparr>)
           | Absent \<Rightarrow> (Inl OSError, w)
           | Denied \<Rightarrow> (Inl OSError, w)))"

text \<open>\<^verbatim>\<open>fp.close()\<close>: the file object leaves the table.\<close>

definition file_close :: "nat \<Rightarrow> world \<Rightarrow> world" where
  "file_close f w =
     w\<lparr>open_files := filter (\<lambda>e. fst e \<noteq> f) (open_files w),
       io_log := io_log w @ [Closed f]\<rparr>"

text \<open>\<^verbatim>\<open>json.load(fp)\<close> is \<^verbatim>\<open>json.loads(fp.read())\<close>.\<close>

definition json_load :: "library \<Rightarrow> nat \<Rightarrow> world \<Rightarrow> (py_error + pyval) \<times> world" where
  "json_load L fp w =
     (case file_read fp w of
        (Inl e, w') \<Rightarrow> (Inl e, w')
      | (Inr s, w') \<Rightarrow> (loads L s, w'))"

text \<open>
  \<^verbatim>\<open>with open(name, 'r') as fp: body\<close>. When \<^verbatim>\<open>open\<close> raises, the body does not
  run. Otherwise the body runs and the file object is closed when the block is left,
  by a return or by an exception alike; the value or the exception then goes on to
  the caller.
\<close>

definition with_open ::
  "string \<Rightarrow> (nat \<Rightarrow> world \<Rightarrow> (py_error + 'a) \<times> world) \<Rightarrow> world \<Rightarrow> (py_error + 'a) \<times> world"
where
  "with_open name body w =
     (case py_open name w of
        (Inl e, w1) \<Rightarrow> (Inl e, w1)
      | (Inr fp, w1) \<Rightarrow> (case body fp w1 of (r, w2) \<Rightarrow> (r, file_close fp w2)))"

section \<open>The view functions of app.py\<close>

definition points :: "library \<Rightarrow> world \<Rightarrow> (py_error + pyval) \<times> world" where
  "points L = with_open ''static/data/features.json'' (\<lambda>points_file. json_load L points_file)"

definition polygons :: "library \<Rightarrow> world \<Rightarrow> (py_error + pyval) \<times> world" where
  "polygons L =
     with_open ''static/data/features_poly.json'' (\<lambda>polygons_file. json_load L polygons_file)"

text \<open>
  Modelled from the spec: the template \<^verbatim>\<open>templates/index.html\<close> is not among the
  sources; the spec describes it as a static HTML template whose markup carries no
  dynamic server-side data. Rendering it therefore yields the markup of the file as it
  is; a template that is not there raises TemplateNotFound.
\<close>

definition render_template :: "string \<Rightarrow> world \<Rightarrow> (py_error + pyval) \<times> world" where
  "render_template name w =
     (case files w (''templates/'' @ name) of
        Content markup \<Rightarrow> (Inr (PyStr markup), w)
      | Absent \<Rightarrow> (Inl TemplateNotFound, w)
      | Denied \<Rightarrow> (Inl PermissionError, w))"

definition home :: "world \<Rightarrow> (py_error + pyval) \<times> world" where
  "home = render_template ''index.html''"

section \<open>The framework around the view functions\<close>

text \<open>
  A GET request as the framework sees it. The view functions of app.py take no
  argument and app.py does not import the request object.
\<close>

record request =
  req_path :: string
  req_args :: "(string \<times> string) list"
  req_headers :: "(string \<times> string) list"

record response =
  status :: nat
  mimetype :: string
  data :: pystr

text \<open>The three \<^verbatim>\<open>@app.route\<close> decorators of app.py, in the order they appear.\<close>

datatype endpoint = Home | Points | Polygons

definition url_map :: "(string \<times> endpoint) list" where
  "url_map = [(''/'', Home), (''/points'', Points), (''/polygons'', Polygons)]"

fun view_functions :: "library \<Rightarrow> endpoint \<Rightarrow> world \<Rightarrow> (py_error + pyval) \<times> world" where
  "view_functions L Home = home"
| "view_functions L Points = points L"
| "view_functions L Polygons = polygons L"

text \<open>
  What Flask (2.2 and later) makes of the return value of a view function: a str
  becomes the body of an HTML response, a dict or a list is encoded by the JSON
  provider, with a newline (code point 10) after it, and anything else that \<^verbatim>\<open>json.load\<close> can
  return (None, a bool, an int, a float) raises TypeError.
\<close>

fun make_response :: "library \<Rightarrow> pyval \<Rightarrow> py_error + response" where
  "make_response L (PyStr s) = Inr \<lparr>status = 200, mimetype = ''text/html'', data = s\<rparr>"
| "make_response L (PyDict kvs) =
     Inr \<lparr>status = 200, mimetype = ''application/json'',
          data = dumps L (PyDict kvs) @ [10]\<rparr>"
| "make_response L (PyList vs) =
     Inr \<lparr>status = 200, mimetype = ''application/json'',
          data = dumps L (PyList vs) @ [10]\<rparr>"
| "make_response L PyNone = Inl TypeError"
| "make_response L (PyBool b) = Inl TypeError"
| "make_response L (PyInt i) = Inl TypeError"
| "make_response L (PyFloat x) = Inl TypeError"

text \<open>An exception that no handler catches becomes the framework's 500 response.\<close>

definition handle_exception :: "library \<Rightarrow> py_error \<Rightarrow> response" where
  "handle_exception L e = \<lparr>status = 500, mimetype = ''text/html'', data = error_page L e\<rparr>"

text \<open>
  What the client gets for the outcome of a view function: the response made of its
  return value, or the 500 response for the exception it raised or for the TypeError
  of a return value the framework cannot turn into a response.
\<close>

definition to_response :: "library \<Rightarrow> py_error + pyval \<Rightarrow> response" where
  "to_response L rv =
     (case rv of
        Inl e \<Rightarrow> handle_exception L e
      | Inr v \<Rightarrow> (case make_response L v of Inl e \<Rightarrow> handle_exception L e | Inr resp \<Rightarrow> resp))"

text \<open>
  One GET request through the application: the URL is matched against the routes, the
  view function is called without arguments, and its return value or its exception is
  turned into the response. app.py registers no error handler and no hook.
\<close>

definition wsgi_app :: "library \<Rightarrow> request \<Rightarrow> world \<Rightarrow> response \<times> world" where
  "wsgi_app L req w =
     (case map_of url_map (req_path req) of
        None \<Rightarrow> (\<lparr>status = 404, mimetype = ''text/html'', data = not_found_page L\<rparr>, w)
      | Some ep \<Rightarrow> (case view_functions L ep w of (rv, w') \<Rightarrow> (to_response L rv, w')))"

section \<open>A running server\<close>

text \<open>
  What happens to a running instance, in order: a request arrives, or a process
  outside the service creates, replaces or removes a file.
\<close>

datatype event = Request request | Replace string file_state

fun app_run :: "library \<Rightarrow> event list \<Rightarrow> world \<Rightarrow> response list \<times> world" where
  "app_run L [] w = ([], w)"
| "app_run L (Request req # evs) w =
     (case wsgi_app L req w of
        (resp, w') \<Rightarrow> (case app_run L evs w' of (rs, w'') \<Rightarrow> (resp # rs, w'')))"
| "app_run L (Replace name st # evs) w = app_run L evs (w\<lparr>files := (files w)(name := st)\<rparr>)"

text \<open>The files as the outside processes alone leave them.\<close>

fun disk_after :: "event list \<Rightarrow> (string \<Rightarrow> file_state) \<Rightarrow> (string \<Rightarrow> file_state)" where
  "disk_after [] fs = fs"
| "disk_after (Request req # evs) fs = disk_after evs fs"
| "disk_after (Replace name st # evs) fs = disk_after evs (fs(name := st))"

section \<open>Two requests at the same time\<close>

text \<open>
  A data view function does three things to the shared world, one after the other:
  it opens the file, it loads from the file object, it closes the file object on
  leaving the \<^verbatim>\<open>with\<close> block. Between any two of them another request may run.
\<close>

datatype pc =
    At_open
  | At_load nat
  | At_close nat "py_error + pyval"
  | Returned "py_error + pyval"

fun thread_step :: "library \<Rightarrow> string \<Rightarrow> pc \<Rightarrow> world \<Rightarrow> pc \<times> world" where
  "thread_step L name At_open w =
     (case py_open name w of
        (Inl e, w') \<Rightarrow> (Returned (Inl e), w')
      | (Inr fp, w') \<Rightarrow> (At_load fp, w'))"
| "thread_step L name (At_load fp) w =
     (case json_load L fp w of (r, w') \<Rightarrow> (At_close fp r, w'))"
| "thread_step L name (At_close fp r) w = (Returned r, file_close fp w)"
| "thread_step L name (Returned r) w = (Returned r, w)"

text \<open>
  A request to /points and a request to /polygons under a schedule: True lets the
  first take its next step, False the second.
\<close>

fun interleave :: "library \<Rightarrow> bool list \<Rightarrow> pc \<times> pc \<times> world \<Rightarrow> pc \<times> pc \<times> world" where
  "interleave L [] s = s"
| "interleave L (b # bs) (p, q, w) =
     (if b
      then (case thread_step L ''static/data/features.json'' p w of
              (p', w') \<Rightarrow> interleave L bs (p', q, w'))
      else (case thread_step L ''static/data/features_poly.json'' q w of
              (q', w') \<Rightarrow> interleave L bs (p, q', w')))"

section \<open>The JSON decoder and encoder of the libraries\<close>

text \<open>
  Python's \<^verbatim>\<open>json\<close> decoder and Flask's JSON provider are not code of the
  repository. They are modelled here as the libraries document and implement them
  (CPython's \<^verbatim>\<open>json.decoder\<close>, \<^verbatim>\<open>json.scanner\<close> and \<^verbatim>\<open>json.encoder\<close>,
  Flask's \<^verbatim>\<open>DefaultJSONProvider\<close>), to have the libraries as they are installed
  among the values of the parameters above. Two limits of the implementation are left
  out: the recursion limit of the interpreter and the limit on the digits of an int.
\<close>

subsection \<open>Decoding\<close>

text \<open>Whitespace between tokens: space, tab, line feed, carriage return.\<close>

definition is_ws :: "nat \<Rightarrow> bool" where
  "is_ws c = (c = 32 \<or> c = 9 \<or> c = 10 \<or> c = 13)"

definition skip_ws :: "pystr \<Rightarrow> pystr" where
  "skip_ws = dropWhile is_ws"

definition is_digit :: "nat \<Rightarrow> bool" where
  "is_digit c = (48 \<le> c \<and> c \<le> 57)"

text \<open>The value of a hexadecimal digit of a \<^verbatim>\<open>uXXXX\<close> escape.\<close>

definition hex_value :: "nat \<Rightarrow> nat option" where
  "hex_value c =
     (if 48 \<le> c \<and> c \<le> 57 then Some (c - 48)
      else if 97 \<le> c \<and> c \<le> 102 then Some (c - 87)
      else if 65 \<le> c \<and> c \<le> 70 then Some (c - 55)
      else None)"

text \<open>The character a one-letter escape stands for.\<close>

definition backslash :: "nat \<Rightarrow> nat option" where
  "backslash c =
     (if c = 34 then Some 34
      else if c = 92 then Some 92
      else if c = 47 then Some 47
      else if c = 98 then Some 8
      else if c = 102 then Some 12
      else if c = 110 then Some 10
      else if c = 114 then Some 13
      else if c = 116 then Some 9
      else None)"

text \<open>
  The body of a string, read up to the closing quote in strict mode: a control
  character, an unknown escape or a missing quote is an error. A character written as
  a \<^verbatim>\<open>uXXXX\<close> escape is marked, since only two such escapes next to each other, a high
  and a low surrogate, are joined into one code point.
\<close>

datatype code_unit = Lit nat | Uni nat

datatype mode = Plain | Esc | Hex nat nat

fun scan_units :: "mode \<Rightarrow> code_unit list \<Rightarrow> pystr \<Rightarrow> (code_unit list \<times> pystr) option" where
  "scan_units m acc [] = None"
| "scan_units Plain acc (c # cs) =
     (if c = 34 then Some (rev acc, cs)
      else if c = 92 then scan_units Esc acc cs
      else if c < 32 then None
      else scan_units Plain (Lit c # acc) cs)"
| "scan_units Esc acc (c # cs) =
     (if c = 117 then scan_units (Hex 0 0) acc cs
      else (case backslash c of
              None \<Rightarrow> None
            | Some d \<Rightarrow> scan_units Plain (Lit d # acc) cs))"
| "scan_units (Hex k v) acc (c # cs) =
     (case hex_value c of
        None \<Rightarrow> None
      | Some h \<Rightarrow>
          (if k = 3 then scan_units Plain (Uni (16 * v + h) # acc) cs
           else scan_units (Hex (Suc k) (16 * v + h)) acc cs))"

fun join_surrogates :: "code_unit list \<Rightarrow> pystr" where
  "join_surrogates [] = []"
| "join_surrogates (Lit c # us) = c # join_surrogates us"
| "join_surrogates [Uni c] = [c]"
| "join_surrogates (Uni c # Lit d # us) = c # d # join_surrogates us"
| "join_surrogates (Uni c # Uni d # us) =
     (if 55296 \<le> c \<and> c \<le> 56319 \<and> 56320 \<le> d \<and> d \<le> 57343
      then (65536 + ((c - 55296) * 1024 + (d - 56320))) # join_surrogates us
      else c # join_surrogates (Uni d # us))"

definition scanstring :: "pystr \<Rightarrow> (pystr \<times> pystr) option" where
  "scanstring t =
     (case scan_units Plain [] t of
        None \<Rightarrow> None
      | Some (us, rest) \<Rightarrow> Some (join_surrogates us, rest))"

text \<open>
  A number: an optional minus, an integer part without leading zeros, an optional
  fraction, an optional exponent. Without fraction and exponent it is an int of any
  size, otherwise a float.
\<close>

fun digits_value :: "nat \<Rightarrow> pystr \<Rightarrow> nat" where
  "digits_value acc [] = acc"
| "digits_value acc (c # cs) = digits_value (10 * acc + (c - 48)) cs"

definition match_number :: "pystr \<Rightarrow> (pyval \<times> pystr) option" where
  "match_number t =
     (let sign = (if t \<noteq> [] \<and> hd t = 45 then [45] else []);
          t1 = drop (length sign) t;
          whole = (if t1 \<noteq> [] \<and> hd t1 = 48 then [48]
                   else if t1 \<noteq> [] \<and> is_digit (hd t1) then takeWhile is_digit t1
                   else []);
          t2 = drop (length whole) t1;
          frac = (case t2 of
                    c # d # r \<Rightarrow> if c = 46 \<and> is_digit d then c # takeWhile is_digit (d # r) else []
                  | _ \<Rightarrow> []);
          t3 = drop (length frac) t2;
          expo = (case t3 of
                    e # r \<Rightarrow>
                      if e = 101 \<or> e = 69
                      then (let sg = (if r \<noteq> [] \<and> (hd r = 43 \<or> hd r = 45) then [hd r] else []);
                                ds = takeWhile is_digit (drop (length sg) r)
                            in if ds = [] then [] else e # sg @ ds)
                      else []
                  | [] \<Rightarrow> []);
          t4 = drop (length expo) t3
      in if whole = [] then None
         else if frac = [] \<and> expo = []
         then Some (PyInt (if sign = [] then int (digits_value 0 whole)
                           else - int (digits_value 0 whole)), t4)
         else Some (PyFloat (sign @ whole @ frac @ expo), t4))"

text \<open>
  \<^verbatim>\<open>dict(pairs)\<close>: a key that occurs again keeps its place and takes the later
  value.
\<close>

fun dict_set :: "pystr \<Rightarrow> pyval \<Rightarrow> (pystr \<times> pyval) list \<Rightarrow> (pystr \<times> pyval) list" where
  "dict_set k v [] = [(k, v)]"
| "dict_set k v ((k', v') # kvs) =
     (if k' = k then (k', v) # kvs else (k', v') # dict_set k v kvs)"

text \<open>
  One value, then the members of an array or an object. The first argument bounds the
  calls still allowed; \<open>json_loads\<close> passes enough for any text.
\<close>

definition starts_with :: "string \<Rightarrow> pystr \<Rightarrow> bool" where
  "starts_with p t = (take (length p) t = ustr p)"

fun scan_once :: "nat \<Rightarrow> pystr \<Rightarrow> py_error + (pyval \<times> pystr)"
  and parse_array :: "nat \<Rightarrow> pyval list \<Rightarrow> pystr \<Rightarrow> py_error + (pyval \<times> pystr)"
  and parse_object :: "nat \<Rightarrow> (pystr \<times> pyval) list \<Rightarrow> pystr \<Rightarrow> py_error + (pyval \<times> pystr)"
where
  "scan_once 0 t = Inl RecursionError"
| "scan_once (Suc n) t =
     (case t of
        [] \<Rightarrow> Inl JSONDecodeError
      | c # cs \<Rightarrow>
          if c = 34 then
            (case scanstring cs of
               None \<Rightarrow> Inl JSONDecodeError
             | Some (s, rest) \<Rightarrow> Inr (PyStr s, rest))
          else if c = 123 then
            (case skip_ws cs of
               [] \<Rightarrow> Inl JSONDecodeError
             | d # ds \<Rightarrow> if d = 125 then Inr (PyDict [], ds) else parse_object n [] (d # ds))
          else if c = 91 then
            (case skip_ws cs of
               [] \<Rightarrow> Inl JSONDecodeError
             | d # ds \<Rightarrow> if d = 93 then Inr (PyList [], ds) else parse_array n [] (d # ds))
          else if starts_with ''null'' t then Inr (PyNone, drop 4 t)
          else if starts_with ''true'' t then Inr (PyBool True, drop 4 t)
          else if starts_with ''false'' t then Inr (PyBool False, drop 5 t)
          else if starts_with ''NaN'' t then Inr (PyFloat (ustr ''NaN''), drop 3 t)
          else if starts_with ''Infinity'' t then Inr (PyFloat (ustr ''Infinity''), drop 8 t)
          else if starts_with ''-Infinity'' t then Inr (PyFloat (ustr ''-Infinity''), drop 9 t)
          else (case match_number t of
                  None \<Rightarrow> Inl JSONDecodeError
                | Some r \<Rightarrow> Inr r))"
| "parse_array 0 acc t = Inl RecursionError"
| "parse_array (Suc n) acc t =
     (case scan_once n t of
        Inl e \<Rightarrow> Inl e
      | Inr (v, rest) \<Rightarrow>
          (case skip_ws rest of
             [] \<Rightarrow> Inl JSONDecodeError
           | d # ds \<Rightarrow>
               if d = 93 then Inr (PyList (acc @ [v]), ds)
               else if d = 44 then parse_array n (acc @ [v]) (skip_ws ds)
               else Inl JSONDecodeError))"
| "parse_object 0 acc t = Inl RecursionError"
| "parse_object (Suc n) acc t =
     (case t of
        [] \<Rightarrow> Inl JSONDecodeError
      | q # qs \<Rightarrow>
          if q \<noteq> 34 then Inl JSONDecodeError
          else (case scanstring qs of
                  None \<Rightarrow> Inl JSONDecodeError
                | Some (key, rest) \<Rightarrow>
                    (case skip_ws rest of
                       [] \<Rightarrow> Inl JSONDecodeError
                     | c # cs \<Rightarrow>
                         if c \<noteq> 58 then Inl JSONDecodeError
                         else (case scan_once n (skip_ws cs) of
                                 Inl e \<Rightarrow> Inl e
                               | Inr (v, rest') \<Rightarrow>
                                   (case skip_ws rest' of
                                      [] \<Rightarrow> Inl JSONDecodeError
                                    | d # ds \<Rightarrow>
                                        if d = 125 then Inr (PyDict (dict_set key v acc), ds)
                                        else if d = 44
                                        then parse_object n (dict_set key v acc) (skip_ws ds)
                                        else Inl JSONDecodeError)))))"

text \<open>
  \<^verbatim>\<open>json.loads(s)\<close>: no byte order mark, one value with whitespace around it and
  nothing after it.
\<close>

definition json_loads :: "pystr \<Rightarrow> py_error + pyval" where
  "json_loads s =
     (if s \<noteq> [] \<and> hd s = 65279 then Inl JSONDecodeError
      else (case scan_once (2 * length s + 2) (skip_ws s) of
              Inl e \<Rightarrow> Inl e
            | Inr (obj, rest) \<Rightarrow> if skip_ws rest = [] then Inr obj else Inl JSONDecodeError))"


subsection \<open>Encoding\<close>

text \<open>\<^verbatim>\<open>int.__repr__\<close>: decimal digits.\<close>

function nat_repr :: "nat \<Rightarrow> pystr" where
  "nat_repr n = (if n < 10 then [48 + n] else nat_repr (n div 10) @ [48 + n mod 10])"
  by pat_completeness auto
termination
  by (relation "measure id") auto

definition int_repr :: "int \<Rightarrow> pystr" where
  "int_repr i = (if i < 0 then 45 # nat_repr (nat (- i)) else nat_repr (nat i))"

text \<open>
  A str with \<^verbatim>\<open>ensure_ascii\<close>: the quote, the backslash and what is outside the
  printable ASCII range are escaped, a code point beyond 0xFFFF as a surrogate pair.
\<close>

definition hex_digit :: "nat \<Rightarrow> nat" where
  "hex_digit d = (if d < 10 then 48 + d else 87 + d)"

definition u_escape :: "nat \<Rightarrow> pystr" where
  "u_escape n =
     [92, 117, hex_digit (n div 4096 mod 16), hex_digit (n div 256 mod 16),
      hex_digit (n div 16 mod 16), hex_digit (n mod 16)]"

definition escape_ascii :: "nat \<Rightarrow> pystr" where
  "escape_ascii c =
     (if c = 92 then [92, 92]
      else if c = 34 then [92, 34]
      else if c = 8 then [92, 98]
      else if c = 12 then [92, 102]
      else if c = 10 then [92, 110]
      else if c = 13 then [92, 114]
      else if c = 9 then [92, 116]
      else if 32 \<le> c \<and> c \<le> 126 then [c]
      else if c < 65536 then u_escape c
      else u_escape (55296 + (c - 65536) div 1024 mod 1024)
           @ u_escape (56320 + (c - 65536) mod 1024))"

definition encode_basestring_ascii :: "pystr \<Rightarrow> pystr" where
  "encode_basestring_ascii s = 34 # concat (map escape_ascii s) @ [34]"

text \<open>
  \<^verbatim>\<open>json.dumps\<close> with an optional indent, the two separators and \<^verbatim>\<open>sort_keys\<close>.
  The members of a dict are encoded first and then sorted by key, which gives what
  sorting the items first gives, since keys are distinct.
\<close>

fun join :: "pystr \<Rightarrow> pystr list \<Rightarrow> pystr" where
  "join sep [] = []"
| "join sep [x] = x"
| "join sep (x # y # ys) = x @ sep @ join sep (y # ys)"

definition newline_indent :: "nat option \<Rightarrow> nat \<Rightarrow> pystr" where
  "newline_indent indent level =
     (case indent of None \<Rightarrow> [] | Some k \<Rightarrow> 10 # replicate (k * level) 32)"

fun iterencode :: "nat option \<Rightarrow> pystr \<Rightarrow> pystr \<Rightarrow> bool \<Rightarrow> nat \<Rightarrow> pyval \<Rightarrow> pystr" where
  "iterencode indent item_sep key_sep sort_keys level PyNone = ustr ''null''"
| "iterencode indent item_sep key_sep sort_keys level (PyBool b) =
     (if b then ustr ''true'' else ustr ''false'')"
| "iterencode indent item_sep key_sep sort_keys level (PyInt i) = int_repr i"
| "iterencode indent item_sep key_sep sort_keys level (PyFloat x) = x"
| "iterencode indent item_sep key_sep sort_keys level (PyStr s) = encode_basestring_ascii s"
| "iterencode indent item_sep key_sep sort_keys level (PyList vs) =
     (if vs = [] then ustr ''[]''
      else [91] @ newline_indent indent (Suc level)
           @ join (item_sep @ newline_indent indent (Suc level))
               (map (iterencode indent item_sep key_sep sort_keys (Suc level)) vs)
           @ newline_indent indent level @ [93])"
| "iterencode indent item_sep key_sep sort_keys level (PyDict kvs) =
     (if kvs = [] then ustr ''{}''
      else [123] @ newline_indent indent (Suc level)
           @ join (item_sep @ newline_indent indent (Suc level))
               (map (\<lambda>(k, e). encode_basestring_ascii k @ key_sep @ e)
                  ((if sort_keys then sort_key fst else id)
                     (map (\<lambda>(k, v). (k, iterencode indent item_sep key_sep sort_keys (Suc level) v))
                        kvs)))
           @ newline_indent indent level @ [125])"

text \<open>
  Flask's default JSON provider: keys sorted, ASCII only, indented by two spaces in
  debug mode and without any space otherwise.
\<close>

definition flask_dumps :: "bool \<Rightarrow> pyval \<Rightarrow> pystr" where
  "flask_dumps debug obj =
     (if debug then iterencode (Some 2) (ustr '','') (ustr '': '') True 0 obj
      else iterencode None (ustr '','') (ustr '':'') True 0 obj)"

section \<open>Auxiliary definitions\<close>

text \<open>
  What a data view function makes of the state of its file. It is used to state the
  lemmas about \<open>with_open\<close> once for the three states.
\<close>

fun outcome :: "library \<Rightarrow> file_state \<Rightarrow> py_error + pyval" where
  "outcome L Absent = Inl FileNotFoundError"
| "outcome L Denied = Inl PermissionError"
| "outcome L (Content c) = loads L c"

text \<open>
  The libraries as installed: the decoder and the encoder above, and the framework's
  two error pages cut down to their titles. \<open>sample_library\<close> is the one of
  \<^verbatim>\<open>app.run(debug=True)\<close>. With it, a world with the two data files and one file
  object open before any request, and a request: the concrete inputs at which the
  theorems are evaluated.
\<close>

definition python_library :: "bool \<Rightarrow> library" where
  "python_library debug =
     \<lparr>loads = json_loads,
      dumps = flask_dumps debug,
      error_page = (\<lambda>e. ustr ''Internal Server Error''),
      not_found_page = ustr ''Not Found''\<rparr>"

definition sample_library :: library where
  "sample_library = python_library True"

definition sample_world :: "file_state \<Rightarrow> file_state \<Rightarrow> world" where
  "sample_world pts polys =
     \<lparr>files = (\<lambda>name. if name = ''static/data/features.json'' then pts
                     else if name = ''static/data/features_poly.json'' then polys
                     else if name = ''templates/index.html'' then Content (ustr ''<html></html>'')
                     else Absent),
      open_files = [(0, ''server.log'')],
      io_log = []\<rparr>"

definition get :: "string \<Rightarrow> request" where
  "get url = \<lparr>req_path = url, req_args = [], req_headers = []\<rparr>"


text \<open>
  For the proof about two requests at the same time: the file object a request holds,
  how far a request has come, what is known of a request at each point (its file
  object is open on its own path, and a result it has computed is the outcome for its
  file), and the invariant of the two requests together, where \<open>base\<close> is the table
  of file objects that were open before either request began.
\<close>

fun held :: "pc \<Rightarrow> nat set" where
  "held At_open = {}"
| "held (At_load fp) = {fp}"
| "held (At_close fp r) = {fp}"
| "held (Returned r) = {}"

fun rank :: "pc \<Rightarrow> nat" where
  "rank At_open = 0"
| "rank (At_load fp) = 1"
| "rank (At_close fp r) = 2"
| "rank (Returned r) = 3"

fun thread_ok :: "library \<Rightarrow> (string \<Rightarrow> file_state) \<Rightarrow> string \<Rightarrow> pc \<Rightarrow> world \<Rightarrow> bool" where
  "thread_ok L F name At_open w = True"
| "thread_ok L F name (At_load fp) w =
     (map_of (open_files w) fp = Some name \<and> (\<exists>c. F name = Content c))"
| "thread_ok L F name (At_close fp r) w =
     (map_of (open_files w) fp = Some name \<and> r = outcome L (F name))"
| "thread_ok L F name (Returned r) w = (r = outcome L (F name))"

definition sys_ok ::
  "library \<Rightarrow> (string \<Rightarrow> file_state) \<Rightarrow> (nat \<times> string) list \<Rightarrow> pc \<Rightarrow> pc \<Rightarrow> world \<Rightarrow> bool"
where
  "sys_ok L F base p q w =
     (files w = F
      \<and> thread_ok L F ''static/data/features.json'' p w
      \<and> thread_ok L F ''static/data/features_poly.json'' q w
      \<and> held p \<inter> held q = {}
      \<and> filter (\<lambda>e. fst e \<notin> held p \<union> held q) (open_files w) = base)"


section \<open>Evaluating the decoder and the encoder\<close>

lemmas scan_once_numeral =
  scan_once.simps(2) [of "pred_numeral k", folded numeral_eq_Suc] for k

lemmas parse_array_numeral =
  parse_array.simps(2) [of "pred_numeral k", folded numeral_eq_Suc] for k

lemmas parse_object_numeral =
  parse_object.simps(2) [of "pred_numeral k", folded numeral_eq_Suc] for k


lemmas decode_simps =
  json_loads_def skip_ws_def is_ws_def match_number_def is_digit_def Let_def starts_with_def
  ustr_def scanstring_def backslash_def hex_value_def
  scan_once_numeral parse_array_numeral parse_object_numeral


lemma loads_empty_object: "json_loads (ustr ''{}'') = Inr (PyDict [])"
  by (simp add: decode_simps)

lemma loads_empty_array: "json_loads (ustr ''[]'') = Inr (PyList [])"
  by (simp add: decode_simps)

lemma loads_open_brace: "json_loads (ustr ''{'') = Inl JSONDecodeError"
  by (simp add: decode_simps)

lemma loads_seven: "json_loads (ustr ''7'') = Inr (PyInt 7)"
  by (simp add: decode_simps)

lemma loads_quoted_hi: "json_loads [34, 104, 105, 34] = Inr (PyStr (ustr ''hi''))"
  by (simp add: decode_simps)

lemma dumps_empty_object: "flask_dumps debug (PyDict []) = ustr ''{}''"
  by (simp add: flask_dumps_def)

lemma dumps_empty_array: "flask_dumps debug (PyList []) = ustr ''[]''"
  by (simp add: flask_dumps_def)






lemmas sample_simps =
  sample_library_def python_library_def loads_empty_object loads_empty_array loads_open_brace
  loads_seven loads_quoted_hi dumps_empty_object dumps_empty_array

section \<open>Opening, loading and closing\<close>

lemma fresh_handle_above: "(h, p) \<in> set hs \<Longrightarrow> h < fresh_handle hs"
  by (induction hs) auto

lemma fresh_handle_unused: "filter (\<lambda>e. fst e \<noteq> fresh_handle hs) hs = hs"
proof -
  have "\<forall>e \<in> set hs. fst e \<noteq> fresh_handle hs"
  proof
    fix e assume "e \<in> set hs"
    then have "(fst e, snd e) \<in> set hs" by simp
    then have "fst e < fresh_handle hs" by (rule fresh_handle_above)
    then show "fst e \<noteq> fresh_handle hs" by simp
  qed
  then show ?thesis by (simp add: filter_id_conv)
qed

lemma with_open_absent:
  assumes "files w name = Absent"
  shows "with_open name (json_load L) w =
           (Inl FileNotFoundError,
            w\<lparr>io_log := io_log w @ [Open_failed name FileNotFoundError]\<rparr>)"
  using assms by (simp add: with_open_def py_open_def)

lemma with_open_denied:
  assumes "files w name = Denied"
  shows "with_open name (json_load L) w =
           (Inl PermissionError,
            w\<lparr>io_log := io_log w @ [Open_failed name PermissionError]\<rparr>)"
  using assms by (simp add: with_open_def py_open_def)

lemma with_open_content:
  assumes "files w name = Content c"
  shows "with_open name (json_load L) w =
           (loads L c,
            w\<lparr>io_log := io_log w @
               [Opened (fresh_handle (open_files w)) name,
                Read_all (fresh_handle (open_files w)),
                Closed (fresh_handle (open_files w))]\<rparr>)"
  using assms
  by (simp add: with_open_def py_open_def json_load_def file_read_def file_close_def
      Let_def fresh_handle_unused)

lemma with_open_result: "fst (with_open name (json_load L) w) = outcome L (files w name)"
  by (cases "files w name") (simp_all add: with_open_absent with_open_denied with_open_content)

lemma with_open_files: "files (snd (with_open name (json_load L) w)) = files w"
  by (cases "files w name") (simp_all add: with_open_absent with_open_denied with_open_content)

lemma with_open_handles: "open_files (snd (with_open name (json_load L) w)) = open_files w"
  by (cases "files w name") (simp_all add: with_open_absent with_open_denied with_open_content)

section \<open>Routing and the frame of a request\<close>

lemma route_home: "map_of url_map ''/'' = Some Home"
  by (simp add: url_map_def)

lemma route_points: "map_of url_map ''/points'' = Some Points"
  by (simp add: url_map_def)

lemma route_polygons: "map_of url_map ''/polygons'' = Some Polygons"
  by (simp add: url_map_def)

lemma view_functions_files: "files (snd (view_functions L ep w)) = files w"
  by (cases ep)
    (simp_all add: home_def render_template_def points_def polygons_def with_open_files
      split: file_state.splits)

lemma view_functions_handles: "open_files (snd (view_functions L ep w)) = open_files w"
  by (cases ep)
    (simp_all add: home_def render_template_def points_def polygons_def with_open_handles
      split: file_state.splits)

lemma wsgi_app_unrouted:
  "map_of url_map (req_path req) = None \<Longrightarrow> snd (wsgi_app L req w) = w"
  by (simp add: wsgi_app_def)

lemma wsgi_app_routed:
  "map_of url_map (req_path req) = Some ep \<Longrightarrow>
   snd (wsgi_app L req w) = snd (view_functions L ep w)"
  by (simp add: wsgi_app_def split: prod.splits)

lemma wsgi_app_files: "files (snd (wsgi_app L req w)) = files w"
  by (cases "map_of url_map (req_path req)")
    (simp_all add: wsgi_app_unrouted wsgi_app_routed view_functions_files)

lemma wsgi_app_handles: "open_files (snd (wsgi_app L req w)) = open_files w"
  by (cases "map_of url_map (req_path req)")
    (simp_all add: wsgi_app_unrouted wsgi_app_routed view_functions_handles)

section \<open>The data routes\<close>





text \<open>
  C3. When the data file of GET /points or GET /polygons is missing, cannot be opened,
  or holds text that the decoder rejects, the view function ends with the exception
  (nothing catches it), the client gets the framework's default 500 response for that
  very exception, and the file is not tried again: the log gains the single failed
  open, or one open, one read and one close.
\<close>

theorem data_route_failure:
  assumes "(req_path req, ep, name) = (''/points'', Points, ''static/data/features.json'')
         \<or> (req_path req, ep, name) = (''/polygons'', Polygons, ''static/data/features_poly.json'')"
  shows "(files w name = Absent \<longrightarrow>
            fst (view_functions L ep w) = Inl FileNotFoundError
          \<and> wsgi_app L req w =
              (\<lparr>status = 500, mimetype = ''text/html'', data = error_page L FileNotFoundError\<rparr>,
               w\<lparr>io_log := io_log w @ [Open_failed name FileNotFoundError]\<rparr>))
       \<and> (files w name = Denied \<longrightarrow>
            fst (view_functions L ep w) = Inl PermissionError
          \<and> wsgi_app L req w =
              (\<lparr>status = 500, mimetype = ''text/html'', data = error_page L PermissionError\<rparr>,
               w\<lparr>io_log := io_log w @ [Open_failed name PermissionError]\<rparr>))
       \<and> (files w name = Content c \<and> loads L c = Inl e \<longrightarrow>
            fst (view_functions L ep w) = Inl e
          \<and> wsgi_app L req w =
              (\<lparr>status = 500, mimetype = ''text/html'', data = error_page L e\<rparr>,
               w\<lparr>io_log := io_log w @
                  [Opened (fresh_handle (open_files w)) name,
                   Read_all (fresh_handle (open_files w)),
                   Closed (fresh_handle (open_files w))]\<rparr>))"
  using assms
  by (auto simp add: wsgi_app_def to_response_def route_points route_polygons points_def
      polygons_def with_open_absent with_open_denied with_open_content handle_exception_def)

theorem data_route_failure_witness:
  "wsgi_app sample_library (get ''/points'') (sample_world Absent (Content (ustr ''[]''))) =
     (\<lparr>status = 500, mimetype = ''text/html'', data = ustr ''Internal Server Error''\<rparr>,
      (sample_world Absent (Content (ustr ''[]'')))\<lparr>io_log :=
         [Open_failed ''static/data/features.json'' FileNotFoundError]\<rparr>)
   \<and> wsgi_app sample_library (get ''/polygons'') (sample_world (Content (ustr ''{}'')) Denied) =
     (\<lparr>status = 500, mimetype = ''text/html'', data = ustr ''Internal Server Error''\<rparr>,
      (sample_world (Content (ustr ''{}'')) Denied)\<lparr>io_log :=
         [Open_failed ''static/data/features_poly.json'' PermissionError]\<rparr>)
   \<and> loads sample_library (ustr ''{'') = Inl JSONDecodeError
   \<and> fst (points sample_library (sample_world (Content (ustr ''{'')) (Content (ustr ''[]'')))) =
       Inl JSONDecodeError
   \<and> wsgi_app sample_library (get ''/points'') (sample_world (Content (ustr ''{'')) (Content (ustr ''[]''))) =
     (\<lparr>status = 500, mimetype = ''text/html'', data = ustr ''Internal Server Error''\<rparr>,
      (sample_world (Content (ustr ''{'')) (Content (ustr ''[]'')))\<lparr>io_log :=
         [Opened 1 ''static/data/features.json'', Read_all 1, Closed 1]\<rparr>)"
  using data_route_failure
      [of "get ''/points''" Points "''static/data/features.json''"
          "sample_world Absent (Content (ustr ''[]''))" sample_library]
    data_route_failure
      [of "get ''/polygons''" Polygons "''static/data/features_poly.json''"
          "sample_world (Content (ustr ''{}'')) Denied" sample_library]
    data_route_failure
      [of "get ''/points''" Points "''static/data/features.json''"
          "sample_world (Content (ustr ''{'')) (Content (ustr ''[]''))" sample_library "ustr ''{''" JSONDecodeError]
  by (simp add: sample_world_def sample_simps get_def)



section \<open>The frame of every request\<close>

text \<open>
  C6. No handler writes or changes the data files or any other shared state: after
  every view function, and after every request whatever its URL, the files are what
  they were and so is the table of open file objects. The only effect of a request is
  its response.
\<close>

theorem request_changes_nothing:
  "files (snd (view_functions L ep w)) = files w
   \<and> open_files (snd (view_functions L ep w)) = open_files w
   \<and> files (snd (wsgi_app L req w)) = files w
   \<and> open_files (snd (wsgi_app L req w)) = open_files w"
  by (simp add: view_functions_files view_functions_handles wsgi_app_files wsgi_app_handles)

text \<open>
  C9. The file object that GET /points or GET /polygons opens is released before the
  view function finishes, on every exit path: whatever the state of the file and
  whatever the decoder does, the table of open file objects after the call is the
  table before it; and when the decoder raises, the exception leaves the view
  function after the file object has been closed.
\<close>

theorem file_object_released:
  "open_files (snd (points L w)) = open_files w
   \<and> open_files (snd (polygons L w)) = open_files w
   \<and> (files w ''static/data/features.json'' = Content c \<and> loads L c = Inl e \<longrightarrow>
        fst (points L w) = Inl e
      \<and> io_log (snd (points L w)) = io_log w @
          [Opened (fresh_handle (open_files w)) ''static/data/features.json'',
           Read_all (fresh_handle (open_files w)),
           Closed (fresh_handle (open_files w))]
      \<and> fresh_handle (open_files w) \<notin> fst ` set (open_files (snd (points L w))))
   \<and> (files w ''static/data/features_poly.json'' = Content c' \<and> loads L c' = Inl e' \<longrightarrow>
        fst (polygons L w) = Inl e'
      \<and> io_log (snd (polygons L w)) = io_log w @
          [Opened (fresh_handle (open_files w)) ''static/data/features_poly.json'',
           Read_all (fresh_handle (open_files w)),
           Closed (fresh_handle (open_files w))]
      \<and> fresh_handle (open_files w) \<notin> fst ` set (open_files (snd (polygons L w))))"
proof -
  have unused: "fresh_handle (open_files w) \<notin> fst ` set (open_files w)"
    using fresh_handle_above [of _ _ "open_files w"] by fastforce
  show ?thesis
    using unused
    by (auto simp add: points_def polygons_def with_open_handles with_open_content)
qed

theorem file_object_released_witness:
  "loads sample_library (ustr ''{'') = Inl JSONDecodeError
   \<and> fst (points sample_library (sample_world (Content (ustr ''{'')) (Content (ustr ''{'')))) =
       Inl JSONDecodeError
   \<and> io_log (snd (points sample_library (sample_world (Content (ustr ''{'')) (Content (ustr ''{''))))) =
       [Opened 1 ''static/data/features.json'', Read_all 1, Closed 1]
   \<and> open_files (snd (points sample_library (sample_world (Content (ustr ''{'')) (Content (ustr ''{''))))) =
       [(0, ''server.log'')]
   \<and> fst (polygons sample_library (sample_world (Content (ustr ''{'')) (Content (ustr ''{'')))) =
       Inl JSONDecodeError
   \<and> open_files (snd (polygons sample_library (sample_world (Content (ustr ''{'')) (Content (ustr ''{''))))) =
       [(0, ''server.log'')]"
  using file_object_released
      [of sample_library "sample_world (Content (ustr ''{'')) (Content (ustr ''{''))" "ustr ''{''" JSONDecodeError
          "ustr ''{''" JSONDecodeError]
  by (simp add: sample_world_def sample_simps)

section \<open>The main page\<close>

text \<open>
  C5. GET / renders and returns the static template index.html with no dynamic
  server-side data: the response is the same for any two requests to that URL,
  whatever their query parameters and headers, it is the markup of the template as a
  200 HTML response when the template is there, and the world is left as it was.
\<close>

theorem home_ignores_request:
  assumes "req_path req = ''/''" and "req_path req' = ''/''"
  shows "wsgi_app L req w = wsgi_app L req' w
       \<and> snd (wsgi_app L req w) = w
       \<and> (files w ''templates/index.html'' = Content markup \<longrightarrow>
            fst (wsgi_app L req w) = \<lparr>status = 200, mimetype = ''text/html'', data = markup\<rparr>)"
  using assms
  by (auto simp add: wsgi_app_def to_response_def route_home home_def render_template_def
      split: file_state.splits)

theorem home_ignores_request_witness:
  "wsgi_app sample_library \<lparr>req_path = ''/'', req_args = [(''q'', ''1'')], req_headers = []\<rparr>
      (sample_world Absent Absent) =
     wsgi_app sample_library (get ''/'') (sample_world Absent Absent)
   \<and> wsgi_app sample_library (get ''/'') (sample_world Absent Absent) =
     (\<lparr>status = 200, mimetype = ''text/html'', data = ustr ''<html></html>''\<rparr>,
      sample_world Absent Absent)"
  using home_ignores_request
      [of "\<lparr>req_path = ''/'', req_args = [(''q'', ''1'')], req_headers = []\<rparr>" "get ''/''"
          sample_library "sample_world Absent Absent" "ustr ''<html></html>''"]
    home_ignores_request
      [of "get ''/''" "get ''/''" sample_library "sample_world Absent Absent" "ustr ''<html></html>''"]
  by (simp add: sample_world_def get_def prod_eq_iff)

section \<open>A running server reads the file at every request\<close>

lemma wsgi_app_response:
  "map_of url_map (req_path req) = Some ep \<Longrightarrow>
   fst (wsgi_app L req w) = to_response L (fst (view_functions L ep w))"
  by (simp add: wsgi_app_def split: prod.splits)

lemma points_result: "fst (points L w) = outcome L (files w ''static/data/features.json'')"
  by (simp add: points_def with_open_result)

lemma polygons_result:
  "fst (polygons L w) = outcome L (files w ''static/data/features_poly.json'')"
  by (simp add: polygons_def with_open_result)

lemma app_run_request_world:
  "snd (app_run L (Request req # evs) w) = snd (app_run L evs (snd (wsgi_app L req w)))"
  by (simp split: prod.splits)

lemma app_run_files: "files (snd (app_run L evs w)) = disk_after evs (files w)"
proof (induction evs arbitrary: w)
  case Nil
  show ?case by simp
next
  case (Cons ev evs)
  show ?case
  proof (cases ev)
    case (Request req)
    then show ?thesis
      by (simp only: app_run_request_world Cons.IH wsgi_app_files disk_after.simps)
  next
    case (Replace name st)
    then show ?thesis
      by (simp add: Cons.IH fun_upd_def)
  qed
qed

lemma app_run_handles: "open_files (snd (app_run L evs w)) = open_files w"
proof (induction evs arbitrary: w)
  case Nil
  show ?case by simp
next
  case (Cons ev evs)
  show ?case
  proof (cases ev)
    case (Request req)
    then show ?thesis
      by (simp only: app_run_request_world Cons.IH wsgi_app_handles)
  next
    case (Replace name st)
    then show ?thesis
      by (simp add: Cons.IH fun_upd_def)
  qed
qed

lemma app_run_snoc:
  "app_run L (evs @ [Request req]) w =
     (fst (app_run L evs w) @ [fst (wsgi_app L req (snd (app_run L evs w)))],
      snd (wsgi_app L req (snd (app_run L evs w))))"
proof (induction evs arbitrary: w)
  case Nil
  show ?case by (simp split: prod.splits)
next
  case (Cons ev evs)
  show ?case
  proof (cases ev)
    case (Request r)
    with Cons.IH show ?thesis by (simp split: prod.splits)
  next
    case (Replace name st)
    with Cons.IH show ?thesis by simp
  qed
qed

lemma data_response:
  assumes "(req_path req, name) = (''/points'', ''static/data/features.json'')
         \<or> (req_path req, name) = (''/polygons'', ''static/data/features_poly.json'')"
  shows "fst (wsgi_app L req w) = to_response L (outcome L (files w name))"
  using assms
  by (auto simp add: wsgi_app_response route_points route_polygons points_result polygons_result)

text \<open>
  C7. Every request to GET /points or GET /polygons reads the file afresh, without a
  cache: after any history of requests and of changes made to the files from outside,
  the response to the next request is the one for the contents the file has at that
  moment, the request performs its own open, read and close, and the response is the
  one any instance would give whose file is in that state.
\<close>

theorem fresh_read_every_request:
  assumes "(req_path req, name) = (''/points'', ''static/data/features.json'')
         \<or> (req_path req, name) = (''/polygons'', ''static/data/features_poly.json'')"
  shows "(disk_after evs (files w) name = Content c \<longrightarrow>
            fst (app_run L (evs @ [Request req]) w) =
              fst (app_run L evs w) @ [to_response L (loads L c)]
          \<and> io_log (snd (app_run L (evs @ [Request req]) w)) =
              io_log (snd (app_run L evs w)) @
                [Opened (fresh_handle (open_files w)) name,
                 Read_all (fresh_handle (open_files w)),
                 Closed (fresh_handle (open_files w))])
       \<and> (req_path req' = req_path req \<and> files w' name = disk_after evs (files w) name \<longrightarrow>
            fst (app_run L (evs @ [Request req]) w) =
              fst (app_run L evs w) @ [fst (wsgi_app L req' w')])"
proof -
  let ?now = "snd (app_run L evs w)"
  have now: "files ?now name = disk_after evs (files w) name"
    by (simp add: app_run_files)
  have handles: "open_files ?now = open_files w"
    by (rule app_run_handles)
  have resp: "fst (wsgi_app L req ?now) = to_response L (outcome L (disk_after evs (files w) name))"
    using data_response [OF assms, of L ?now] now by simp
  have log: "disk_after evs (files w) name = Content c \<Longrightarrow>
      io_log (snd (wsgi_app L req ?now)) = io_log ?now @
        [Opened (fresh_handle (open_files w)) name,
         Read_all (fresh_handle (open_files w)),
         Closed (fresh_handle (open_files w))]"
    using assms now handles
    by (auto simp add: wsgi_app_def route_points route_polygons points_def polygons_def
        with_open_content)
  have other: "req_path req' = req_path req \<Longrightarrow> files w' name = disk_after evs (files w) name \<Longrightarrow>
      fst (wsgi_app L req' w') = to_response L (outcome L (disk_after evs (files w) name))"
    using data_response [of req' name L w'] assms by auto
  show ?thesis
    using resp log other by (simp add: app_run_snoc)
qed


theorem fresh_read_every_request_witness:
  "disk_after
     [Request (get ''/points''), Replace ''static/data/features.json'' (Content (ustr ''[]''))]
     (files (sample_world (Content (ustr ''{}'')) (Content (ustr ''{}'')))) ''static/data/features.json'' =
     Content (ustr ''[]'')
   \<and> fst (app_run sample_library
          ([Request (get ''/points''), Replace ''static/data/features.json'' (Content (ustr ''[]''))]
           @ [Request (get ''/points'')])
          (sample_world (Content (ustr ''{}'')) (Content (ustr ''{}'')))) =
       [\<lparr>status = 200, mimetype = ''application/json'', data = ustr ''{}'' @ [10]\<rparr>,
        \<lparr>status = 200, mimetype = ''application/json'', data = ustr ''[]'' @ [10]\<rparr>]
   \<and> io_log (snd (app_run sample_library
          ([Request (get ''/points''), Replace ''static/data/features.json'' (Content (ustr ''[]''))]
           @ [Request (get ''/points'')])
          (sample_world (Content (ustr ''{}'')) (Content (ustr ''{}''))))) =
       [Opened 1 ''static/data/features.json'', Read_all 1, Closed 1,
        Opened 1 ''static/data/features.json'', Read_all 1, Closed 1]"
  using fresh_read_every_request
    [of "get ''/points''" "''static/data/features.json''"
        "[Request (get ''/points''), Replace ''static/data/features.json'' (Content (ustr ''[]''))]"
        "sample_world (Content (ustr ''{}'')) (Content (ustr ''{}''))" "ustr ''[]''" sample_library
        "get ''/points''" "sample_world (Content (ustr ''[]'')) Absent"]
  by (simp add: sample_world_def sample_simps get_def wsgi_app_def url_map_def
      points_def with_open_def py_open_def json_load_def file_read_def file_close_def
      to_response_def)

section \<open>Requests that overlap\<close>

lemma map_of_fresh_handle: "map_of hs (fresh_handle hs) = None"
proof (cases "map_of hs (fresh_handle hs)")
  case None
  then show ?thesis .
next
  case (Some name)
  then have "(fresh_handle hs, name) \<in> set hs" by (rule map_of_SomeD)
  then have "fresh_handle hs < fresh_handle hs" by (rule fresh_handle_above)
  then show ?thesis by simp
qed

lemma map_of_close: "k \<noteq> f \<Longrightarrow> map_of (filter (\<lambda>e. fst e \<noteq> f) hs) k = map_of hs k"
  by (induction hs) auto

lemma held_is_open:
  "thread_ok L F name p w \<Longrightarrow> fp \<in> held p \<Longrightarrow> map_of (open_files w) fp = Some name"
  by (cases p) auto

lemma thread_step_own:
  assumes "files w = F" and "thread_ok L F name p w"
  shows "files (snd (thread_step L name p w)) = F
       \<and> thread_ok L F name (fst (thread_step L name p w)) (snd (thread_step L name p w))"
proof (cases p)
  case At_open
  with assms show ?thesis
    by (cases "F name") (auto simp add: py_open_def Let_def)
next
  case (At_load fp)
  with assms show ?thesis
    by (auto simp add: json_load_def file_read_def)
next
  case (At_close fp r)
  with assms show ?thesis
    by (simp add: file_close_def)
next
  case (Returned r)
  with assms show ?thesis by simp
qed

lemma thread_step_other:
  assumes "thread_ok L F name p w" and "thread_ok L F name' q w" and "held p \<inter> held q = {}"
  shows "thread_ok L F name' q (snd (thread_step L name p w))
       \<and> held (fst (thread_step L name p w)) \<inter> held q = {}"
proof (cases p)
  case At_open
  have fresh: "fp \<in> held q \<Longrightarrow> fp \<noteq> fresh_handle (open_files w)" for fp
    using held_is_open [OF assms(2)] map_of_fresh_handle [of "open_files w"] by auto
  from At_open fresh assms(2) show ?thesis
    by (cases q; cases "files w name") (auto simp add: py_open_def Let_def)
next
  case (At_load fp)
  with assms show ?thesis
    by (cases q) (auto simp add: json_load_def file_read_def split: file_state.splits)
next
  case (At_close fp r)
  with assms show ?thesis
    by (cases q) (auto simp add: file_close_def map_of_close)
next
  case (Returned r)
  with assms show ?thesis by simp
qed

lemma thread_step_base:
  assumes "thread_ok L F name p w"
  shows "filter (\<lambda>e. fst e \<notin> held (fst (thread_step L name p w)) \<union> H)
           (open_files (snd (thread_step L name p w))) =
         filter (\<lambda>e. fst e \<notin> held p \<union> H) (open_files w)"
proof (cases p)
  case At_open
  have "\<forall>e \<in> set (open_files w). fst e \<noteq> fresh_handle (open_files w)"
    using fresh_handle_above [of _ _ "open_files w"] by fastforce
  then have "filter (\<lambda>e. fst e \<noteq> fresh_handle (open_files w) \<and> fst e \<notin> H) (open_files w) =
             filter (\<lambda>e. fst e \<notin> H) (open_files w)"
    by (intro filter_cong) auto
  with At_open show ?thesis
    by (cases "files w name") (simp_all add: py_open_def Let_def)
next
  case (At_load fp)
  then show ?thesis
    by (simp add: json_load_def file_read_def split: option.splits file_state.splits)
next
  case (At_close fp r)
  then show ?thesis
    by (simp add: file_close_def conj_commute)
next
  case (Returned r)
  then show ?thesis by simp
qed

lemma thread_step_rank: "min 3 (Suc (rank p)) \<le> rank (fst (thread_step L name p w))"
  by (cases p) (simp_all add: py_open_def Let_def split: file_state.splits prod.splits)


lemma interleave_sys_ok:
  "sys_ok L F base p q w \<Longrightarrow> interleave L bs (p, q, w) = (p', q', w') \<Longrightarrow>
   sys_ok L F base p' q' w'"
proof (induction bs arbitrary: p q w)
  case Nil
  then show ?case by simp
next
  case (Cons b bs)
  from Cons.prems(1) have inv:
    "files w = F"
    "thread_ok L F ''static/data/features.json'' p w"
    "thread_ok L F ''static/data/features_poly.json'' q w"
    "held p \<inter> held q = {}"
    "filter (\<lambda>e. fst e \<notin> held p \<union> held q) (open_files w) = base"
    by (simp_all add: sys_ok_def)
  show ?case
  proof (cases b)
    case True
    let ?t = "thread_step L ''static/data/features.json'' p w"
    have "sys_ok L F base (fst ?t) q (snd ?t)"
      using thread_step_own [OF inv(1) inv(2)]
        thread_step_other [OF inv(2) inv(3) inv(4)]
        thread_step_base [OF inv(2), of "held q"] inv(5)
      by (simp add: sys_ok_def)
    moreover from Cons.prems(2) True
    have "interleave L bs (fst ?t, q, snd ?t) = (p', q', w')"
      by (simp add: case_prod_beta)
    ultimately show ?thesis by (rule Cons.IH)
  next
    case False
    let ?t = "thread_step L ''static/data/features_poly.json'' q w"
    have disj: "held q \<inter> held p = {}" using inv(4) by auto
    have base: "filter (\<lambda>e. fst e \<notin> held q \<union> held p) (open_files w) = base"
      using inv(5) by (simp add: Un_commute)
    have "held p \<inter> held (fst ?t) = {}"
      using thread_step_other [OF inv(3) inv(2) disj] by auto
    moreover have "filter (\<lambda>e. fst e \<notin> held p \<union> held (fst ?t)) (open_files (snd ?t)) = base"
      using thread_step_base [OF inv(3), of "held p"] base by (simp add: Un_commute)
    ultimately have "sys_ok L F base p (fst ?t) (snd ?t)"
      using thread_step_own [OF inv(1) inv(3)] thread_step_other [OF inv(3) inv(2) disj]
      by (simp add: sys_ok_def)
    moreover from Cons.prems(2) False
    have "interleave L bs (p, fst ?t, snd ?t) = (p', q', w')"
      by (simp add: case_prod_beta)
    ultimately show ?thesis by (rule Cons.IH)
  qed
qed

lemma interleave_rank:
  "interleave L bs (p, q, w) = (p', q', w') \<Longrightarrow>
   min 3 (rank p + length (filter id bs)) \<le> rank p'
   \<and> min 3 (rank q + length (filter Not bs)) \<le> rank q'"
proof (induction bs arbitrary: p q w)
  case Nil
  then show ?case by simp
next
  case (Cons b bs)
  show ?case
  proof (cases b)
    case True
    let ?t = "thread_step L ''static/data/features.json'' p w"
    from Cons.prems True have "interleave L bs (fst ?t, q, snd ?t) = (p', q', w')"
      by (simp split: prod.splits)
    from Cons.IH [OF this] thread_step_rank [of p L "''static/data/features.json''" w] True
    show ?thesis by auto
  next
    case False
    let ?t = "thread_step L ''static/data/features_poly.json'' q w"
    from Cons.prems False have "interleave L bs (p, fst ?t, snd ?t) = (p', q', w')"
      by (simp split: prod.splits)
    from Cons.IH [OF this] thread_step_rank [of q L "''static/data/features_poly.json''" w] False
    show ?thesis by auto
  qed
qed

lemma rank_returned: "3 \<le> rank p \<Longrightarrow> \<exists>r. p = Returned r"
  by (cases p) simp_all

lemma interleave_fair:
  assumes run: "interleave L bs (At_open, At_open, w) = (p, q, w')"
    and fair: "3 \<le> length (filter id bs)" "3 \<le> length (filter Not bs)"
  shows "p = Returned (fst (points L w)) \<and> q = Returned (fst (polygons L w))
       \<and> files w' = files w \<and> open_files w' = open_files w"
proof -
  have "sys_ok L (files w) (open_files w) At_open At_open w"
    by (simp add: sys_ok_def)
  then have ok: "sys_ok L (files w) (open_files w) p q w'"
    using run by (rule interleave_sys_ok)
  from interleave_rank [OF run] fair have "3 \<le> rank p" "3 \<le> rank q" by simp_all
  then obtain r r' where "p = Returned r" "q = Returned r'"
    using rank_returned by blast
  with ok show ?thesis
    by (simp add: sys_ok_def points_result polygons_result)
qed

lemma interleave_alone:
  "interleave L [True, True, True] (At_open, q, w) = (Returned (fst (points L w)), q, snd (points L w))"
  by (cases "files w ''static/data/features.json''")
    (simp_all add: points_def with_open_def py_open_def Let_def split: prod.splits)


text \<open>
  C8. Requests to /points and /polygons do not interfere. The response of each is a
  function of the state of its own file: two worlds that agree on that file give the
  same response, whatever else differs. And when a request to /points and a request
  to /polygons run at the same time, under any schedule that lets both finish, each
  returns what its view function returns when run alone, the files and the table of
  open file objects end as they began, and two such runs that agree on a file agree
  on the result for it.
\<close>

theorem data_routes_do_not_interfere:
  "(req_path r1 = ''/points'' \<and> req_path r2 = ''/points''
      \<and> files w1 ''static/data/features.json'' = files w2 ''static/data/features.json'' \<longrightarrow>
      fst (wsgi_app L r1 w1) = fst (wsgi_app L r2 w2))
   \<and> (req_path r1 = ''/polygons'' \<and> req_path r2 = ''/polygons''
      \<and> files w1 ''static/data/features_poly.json'' = files w2 ''static/data/features_poly.json'' \<longrightarrow>
      fst (wsgi_app L r1 w1) = fst (wsgi_app L r2 w2))
   \<and> (interleave L bs1 (At_open, At_open, w1) = (p1, q1, w1')
      \<and> interleave L bs2 (At_open, At_open, w2) = (p2, q2, w2')
      \<and> 3 \<le> length (filter id bs1) \<and> 3 \<le> length (filter Not bs1)
      \<and> 3 \<le> length (filter id bs2) \<and> 3 \<le> length (filter Not bs2) \<longrightarrow>
      p1 = Returned (fst (points L w1)) \<and> q1 = Returned (fst (polygons L w1))
      \<and> files w1' = files w1 \<and> open_files w1' = open_files w1
      \<and> (files w1 ''static/data/features.json'' = files w2 ''static/data/features.json'' \<longrightarrow>
           p2 = p1)
      \<and> (files w1 ''static/data/features_poly.json'' = files w2 ''static/data/features_poly.json'' \<longrightarrow>
           q2 = q1))"
proof (intro conjI impI)
  assume "req_path r1 = ''/points'' \<and> req_path r2 = ''/points''
      \<and> files w1 ''static/data/features.json'' = files w2 ''static/data/features.json''"
  then show "fst (wsgi_app L r1 w1) = fst (wsgi_app L r2 w2)"
    using data_response [of r1 "''static/data/features.json''" L w1]
      data_response [of r2 "''static/data/features.json''" L w2]
    by simp
next
  assume "req_path r1 = ''/polygons'' \<and> req_path r2 = ''/polygons''
      \<and> files w1 ''static/data/features_poly.json'' = files w2 ''static/data/features_poly.json''"
  then show "fst (wsgi_app L r1 w1) = fst (wsgi_app L r2 w2)"
    using data_response [of r1 "''static/data/features_poly.json''" L w1]
      data_response [of r2 "''static/data/features_poly.json''" L w2]
    by simp
next
  assume runs: "interleave L bs1 (At_open, At_open, w1) = (p1, q1, w1')
      \<and> interleave L bs2 (At_open, At_open, w2) = (p2, q2, w2')
      \<and> 3 \<le> length (filter id bs1) \<and> 3 \<le> length (filter Not bs1)
      \<and> 3 \<le> length (filter id bs2) \<and> 3 \<le> length (filter Not bs2)"
  then have one: "p1 = Returned (fst (points L w1)) \<and> q1 = Returned (fst (polygons L w1))
       \<and> files w1' = files w1 \<and> open_files w1' = open_files w1"
    by (intro interleave_fair [of L bs1 w1 p1 q1 w1']) simp_all
  from runs have two: "p2 = Returned (fst (points L w2)) \<and> q2 = Returned (fst (polygons L w2))
       \<and> files w2' = files w2 \<and> open_files w2' = open_files w2"
    by (intro interleave_fair [of L bs2 w2 p2 q2 w2']) simp_all
  from one show "p1 = Returned (fst (points L w1))" "q1 = Returned (fst (polygons L w1))"
    "files w1' = files w1" "open_files w1' = open_files w1"
    by simp_all
  {
    assume "files w1 ''static/data/features.json'' = files w2 ''static/data/features.json''"
    with one two show "p2 = p1" by (simp add: points_result)
  }
  {
    assume "files w1 ''static/data/features_poly.json'' = files w2 ''static/data/features_poly.json''"
    with one two show "q2 = q1" by (simp add: polygons_result)
  }
qed

theorem data_routes_do_not_interfere_witness:
  "interleave sample_library [True, False, False, True, False, True]
      (At_open, At_open, sample_world (Content (ustr ''{}'')) (Content (ustr ''[]''))) =
     (Returned (Inr (PyDict [])), Returned (Inr (PyList [])),
      (sample_world (Content (ustr ''{}'')) (Content (ustr ''[]'')))\<lparr>io_log :=
         [Opened 1 ''static/data/features.json'', Opened 2 ''static/data/features_poly.json'',
          Read_all 2, Read_all 1, Closed 2, Closed 1]\<rparr>)
   \<and> interleave sample_library [False, False, False, True, True, True]
      (At_open, At_open, sample_world (Content (ustr ''{}'')) Absent) =
     (Returned (Inr (PyDict [])), Returned (Inl FileNotFoundError),
      (sample_world (Content (ustr ''{}'')) Absent)\<lparr>io_log :=
         [Open_failed ''static/data/features_poly.json'' FileNotFoundError,
          Opened 1 ''static/data/features.json'', Read_all 1, Closed 1]\<rparr>)
   \<and> Returned (Inr (PyDict [])) =
       Returned (fst (points sample_library (sample_world (Content (ustr ''{}'')) (Content (ustr ''[]'')))))
   \<and> fst (wsgi_app sample_library (get ''/points'') (sample_world (Content (ustr ''{}'')) (Content (ustr ''[]'')))) =
     fst (wsgi_app sample_library (get ''/points'') (sample_world (Content (ustr ''{}'')) Absent))"
proof -
  let ?w1 = "sample_world (Content (ustr ''{}'')) (Content (ustr ''[]''))"
  let ?w2 = "sample_world (Content (ustr ''{}'')) Absent"
  let ?bs1 = "[True, False, False, True, False, True]"
  let ?bs2 = "[False, False, False, True, True, True]"
  let ?w1' = "?w1\<lparr>io_log :=
         [Opened 1 ''static/data/features.json'', Opened 2 ''static/data/features_poly.json'',
          Read_all 2, Read_all 1, Closed 2, Closed 1]\<rparr>"
  let ?w2' = "?w2\<lparr>io_log :=
         [Open_failed ''static/data/features_poly.json'' FileNotFoundError,
          Opened 1 ''static/data/features.json'', Read_all 1, Closed 1]\<rparr>"
  have run1: "interleave sample_library ?bs1 (At_open, At_open, ?w1) =
      (Returned (Inr (PyDict [])), Returned (Inr (PyList [])), ?w1')"
    by (simp add: sample_world_def sample_simps py_open_def json_load_def file_read_def
        file_close_def)
  have run2: "interleave sample_library ?bs2 (At_open, At_open, ?w2) =
      (Returned (Inr (PyDict [])), Returned (Inl FileNotFoundError), ?w2')"
    by (simp add: sample_world_def sample_simps py_open_def json_load_def file_read_def
        file_close_def)
  have same: "files ?w1 ''static/data/features.json'' = files ?w2 ''static/data/features.json''"
    by (simp add: sample_world_def)
  have fair: "3 \<le> length (filter id ?bs1)" "3 \<le> length (filter Not ?bs1)"
    "3 \<le> length (filter id ?bs2)" "3 \<le> length (filter Not ?bs2)"
    by simp_all
  have url: "req_path (get ''/points'') = ''/points''"
    by (simp add: get_def)
  note main = data_routes_do_not_interfere
      [where ?r1.0 = "get ''/points''" and ?r2.0 = "get ''/points''"
         and ?w1.0 = ?w1 and ?w2.0 = ?w2 and L = sample_library
         and ?bs1.0 = ?bs1 and ?p1.0 = "Returned (Inr (PyDict []))"
         and ?q1.0 = "Returned (Inr (PyList []))" and ?w1' = ?w1'
         and ?bs2.0 = ?bs2 and ?p2.0 = "Returned (Inr (PyDict []))"
         and ?q2.0 = "Returned (Inl FileNotFoundError)" and ?w2' = ?w2']
  from main url same have resp:
    "fst (wsgi_app sample_library (get ''/points'') ?w1) =
     fst (wsgi_app sample_library (get ''/points'') ?w2)"
    by blast
  from main run1 run2 fair have ret:
    "Returned (Inr (PyDict [])) = Returned (fst (points sample_library ?w1))"
    by blast
  from run1 run2 ret resp show ?thesis by blast
qed

section \<open>The response body and the file\<close>







end
